theory Spec2Isabelle
  imports Complex_Main
begin

section \<open>The OpenRouter request-lifecycle manager\<close>

text \<open>
  A shallow embedding of \<^verbatim>\<open>OpenRouterApiService\<close>: the two public methods
  \<^verbatim>\<open>generateText\<close> and \<^verbatim>\<open>abortRequest\<close>, the private helpers
  \<^verbatim>\<open>cleanupRequest\<close> and \<^verbatim>\<open>generateRequestId\<close>, and the two callbacks that
  \<^verbatim>\<open>generateText\<close> installs with \<^verbatim>\<open>tap\<close>.

  Modelling decisions.
  \<^item> A JavaScript \<^verbatim>\<open>number\<close> is an IEEE-754 double. A finite double is carried as
    the \<^typ>\<open>real\<close> it denotes, and the one arithmetic operation on such numbers, the
    division in \<^verbatim>\<open>Math.floor(maxTokens / 1.3)\<close>, rounds its exact result to the nearest
    double. NaN and the infinities are outside the model. Timestamps
    (\<^verbatim>\<open>Date.now()\<close>) and durations are \<^typ>\<open>int\<close> milliseconds.
  \<^item> An optional field (\<^verbatim>\<open>model?: string\<close>) is an \<^typ>\<open>'a option\<close>; \<open>None\<close> is
    \<^verbatim>\<open>undefined\<close>. JavaScript truthiness is written out where the source uses
    \<^verbatim>\<open>||\<close> or \<^verbatim>\<open>!\<close>: a string is falsy when empty, a number when zero, an optional
    value when absent.
  \<^item> \<^verbatim>\<open>throw new Error(msg)\<close> is the result \<open>Inl (Error msg)\<close>.
  \<^item> The service's two \<^verbatim>\<open>Map\<close>s are partial functions. Objects with identity
    (\<^verbatim>\<open>Subject\<close>s, the returned \<^verbatim>\<open>Observable\<close>s, their subscriptions) live in
    append-only lists and are referred to by their index.
  \<^item> The audit logger is external: the model records the calls made to it, in order.
    What the environment decides (the clock, the log id that \<^verbatim>\<open>logRequest\<close> returns,
    \<^verbatim>\<open>window.location.origin\<close>, the random suffix of a generated id) is a parameter.
\<close>

subsection \<open>Data shapes\<close>

datatype role = System | User | Assistant

record chat_message =
  role :: role
  content :: string

text \<open>Interface \<^verbatim>\<open>OpenRouterRequest\<close>; the fields carry the prefix \<open>rq_\<close>.\<close>

record OpenRouterRequest =
  rq_model :: string
  rq_messages :: "chat_message list"
  rq_max_tokens :: "real option"
  rq_temperature :: "real option"
  rq_top_p :: "real option"
  rq_stream :: "bool option"

record response_message =
  rm_role :: string
  rm_content :: string

record choice =
  ch_index :: real
  ch_message :: response_message
  ch_finish_reason :: string

record usage =
  prompt_tokens :: real
  completion_tokens :: real
  total_tokens :: real

text \<open>Interface \<^verbatim>\<open>OpenRouterResponse\<close>; the fields carry the prefix \<open>rs_\<close>.\<close>

record OpenRouterResponse =
  rs_id :: string
  rs_object :: string
  rs_created :: real
  rs_model :: string
  rs_choices :: "choice list"
  rs_usage :: usage

text \<open>
  The value an errored transport call delivers (untyped in the source). The error
  callback reads \<^verbatim>\<open>error.message\<close> and \<^verbatim>\<open>error.error?.message\<close>.
\<close>

record error_body =
  eb_message :: "string option"

record http_error =
  he_message :: "string option"
  he_error :: "error_body option"

text \<open>The second parameter of \<^verbatim>\<open>generateText\<close>; the fields carry the prefix \<open>opt_\<close>.\<close>

record options =
  opt_model :: "string option"
  opt_maxTokens :: "real option"
  opt_temperature :: "real option"
  opt_topP :: "real option"
  opt_wordCount :: "real option"
  opt_requestId :: "string option"

text \<open>\<^verbatim>\<open>settingsService.getSettings().openRouter\<close>.\<close>

record openRouter =
  enabled :: bool
  apiKey :: string
  cfg_model :: string
  cfg_temperature :: real
  cfg_topP :: real

text \<open>A thrown JavaScript \<^verbatim>\<open>Error\<close> with its message.\<close>

datatype error = Error string

text \<open>The values of the \<^verbatim>\<open>requestMetadata\<close> map: \<^verbatim>\<open>{ logId, startTime }\<close>.\<close>

record metadata =
  md_logId :: string
  md_startTime :: int

text \<open>The argument of \<^verbatim>\<open>aiLogger.logRequest\<close>.\<close>

record log_request =
  lr_endpoint :: string
  lr_model :: string
  lr_wordCount :: real
  lr_maxTokens :: real
  lr_prompt :: string

text \<open>One call to the audit logger, with its arguments.\<close>

datatype log_call =
    LogRequest log_request
  | LogSuccess string string int
  | LogError string string int
  | LogAborted string int

text \<open>An RxJS \<^verbatim>\<open>Subject<void>\<close>: once completed it is stopped and ignores \<^verbatim>\<open>next()\<close>.\<close>

record subject =
  isStopped :: bool

text \<open>
  The \<^verbatim>\<open>Observable\<close> that \<^verbatim>\<open>generateText\<close> returns. It is cold: nothing is sent until
  it is subscribed. The record holds what its pipeline closes over.
\<close>

record observable =
  o_requestId :: string
  o_logId :: string
  o_startTime :: int
  o_abortSubject :: nat
  o_request :: OpenRouterRequest
  o_headers :: "(string \<times> string) list"

text \<open>
  One subscription to such an observable, that is one transport call. It is closed
  once the call has settled or \<^verbatim>\<open>takeUntil\<close> has seen its notifier emit.
\<close>

record subscription =
  s_source :: observable
  s_closed :: bool

text \<open>One \<^verbatim>\<open>http.post(url, body, { headers })\<close> put on the wire.\<close>

record http_post =
  p_url :: string
  p_body :: OpenRouterRequest
  p_headers :: "(string \<times> string) list"

text \<open>The service's fields, the objects it created and the calls it made.\<close>

record state =
  abortSubjects :: "string \<rightharpoonup> nat"
  requestMetadata :: "string \<rightharpoonup> metadata"
  aiLog :: "log_call list"
  subjects :: "subject list"
  observables :: "observable list"
  subscriptions :: "subscription list"
  posts :: "http_post list"

text \<open>What the environment supplies to one call of \<^verbatim>\<open>generateText\<close>.\<close>

record env =
  now :: int
  logRequest_result :: string
  origin :: string
  id_now :: int
  id_random :: string

text \<open>How a transport call settles: one response, or one error.\<close>

datatype outcome = Next OpenRouterResponse | Err http_error

subsection \<open>Double-precision arithmetic\<close>

text \<open>The power of two with an integer exponent.\<close>

definition pow2 :: "int \<Rightarrow> real" where
  "pow2 e = (if 0 \<le> e then 2 ^ nat e else 1 / 2 ^ nat (- e))"

text \<open>The binary exponent \<open>b\<close> of a positive real \<open>x\<close>: \<open>pow2 b \<le> x < pow2 (b + 1)\<close>.\<close>

function binade :: "real \<Rightarrow> int" where
  "binade x = (if x \<le> 0 then 0
     else if 2 \<le> x then binade (x / 2) + 1
     else if x < 1 then binade (x * 2) - 1
     else 0)"
  by pat_completeness auto
termination
proof (relation "measure (\<lambda>x. if 1 \<le> x then nat \<lfloor>log 2 x\<rfloor> else nat \<lceil>- log 2 x\<rceil>)")
  show "wf (measure (\<lambda>x::real. if 1 \<le> x then nat \<lfloor>log 2 x\<rfloor> else nat \<lceil>- log 2 x\<rceil>))"
    by simp
next
  fix x :: real
  assume "\<not> x \<le> 0" "2 \<le> x"
  then have "1 \<le> log 2 x" using log_le_cancel_iff [of 2 2 x] by simp
  then have "1 \<le> \<lfloor>log 2 x\<rfloor>" by linarith
  moreover have "log 2 (x / 2) = log 2 x - 1" using \<open>2 \<le> x\<close> by (simp add: log_divide)
  ultimately show "(x / 2, x) \<in> measure (\<lambda>x. if 1 \<le> x then nat \<lfloor>log 2 x\<rfloor> else nat \<lceil>- log 2 x\<rceil>)"
    using \<open>2 \<le> x\<close> by simp
next
  fix x :: real
  assume x: "\<not> x \<le> 0" "\<not> 2 \<le> x" "x < 1"
  then have neg: "log 2 x < 0" by simp
  have dbl: "log 2 (x * 2) = log 2 x + 1" using x by (simp add: log_mult)
  show "(x * 2, x) \<in> measure (\<lambda>x. if 1 \<le> x then nat \<lfloor>log 2 x\<rfloor> else nat \<lceil>- log 2 x\<rceil>)"
  proof (cases "1 \<le> x * 2")
    case True
    have "log 2 (x * 2) < 1" using dbl neg by simp
    then have "\<lfloor>log 2 (x * 2)\<rfloor> \<le> 0" by linarith
    moreover have "1 \<le> \<lceil>- log 2 x\<rceil>" using neg by linarith
    ultimately show ?thesis using True x by simp
  next
    case False
    have "1 \<le> \<lceil>- log 2 x\<rceil>" using neg by linarith
    moreover have "\<lceil>- log 2 (x * 2)\<rceil> = \<lceil>- log 2 x\<rceil> - 1" unfolding dbl by linarith
    ultimately show ?thesis using False x by simp
  qed
qed

declare binade.simps [simp del]

text \<open>Rounding to the nearest integer, a tie going to the even one.\<close>

definition round_even :: "real \<Rightarrow> int" where
  "round_even y = (let f = \<lfloor>y\<rfloor>; d = y - of_int f
     in if d < 1 / 2 then f else if 1 / 2 < d then f + 1 else if even f then f else f + 1)"

text \<open>
  The double nearest to a real (round to nearest, ties to even): a significand of 53
  bits, scaled by a power of two that is at least \<open>pow2 (- 1074)\<close>, the spacing of the
  subnormal doubles. A number literal of the source denotes the double nearest to
  its decimal value. Overflow to infinity is not represented.
\<close>

definition to_double :: "real \<Rightarrow> real" where
  "to_double x = (if x = 0 then 0
     else let e = max (binade \<bar>x\<bar> - 52) (- 1074)
          in sgn x * of_int (round_even (\<bar>x\<bar> / pow2 e)) * pow2 e)"

text \<open>The division \<^verbatim>\<open>x / y\<close> of two doubles, for \<open>y \<noteq> 0\<close>.\<close>

definition double_div :: "real \<Rightarrow> real \<Rightarrow> real" where
  "double_div x y = to_double (x / y)"

subsection \<open>The service\<close>

definition API_URL :: string where
  "API_URL = ''https://openrouter.ai/api/v1/chat/completions''"

definition initial :: state where
  "initial = \<lparr>abortSubjects = Map.empty, requestMetadata = Map.empty, aiLog = [],
     subjects = [], observables = [], subscriptions = [], posts = []\<rparr>"

text \<open>Decimal rendering of a number, as string concatenation does it in JavaScript.\<close>

fun digits :: "nat \<Rightarrow> string" where
  "digits n = (if n < 10 then [char_of (48 + n)]
     else digits (n div 10) @ [char_of (48 + n mod 10)])"

declare digits.simps [simp del]

definition show_int :: "int \<Rightarrow> string" where
  "show_int i = (if i < 0 then ''-'' @ digits (nat (- i)) else digits (nat i))"

text \<open>
  \<^verbatim>\<open>'req_' + Date.now() + '_' + Math.random().toString(36).substring(2, 9)\<close>: the clock
  reading and the random suffix come from the environment.
\<close>

definition generateRequestId :: "env \<Rightarrow> string" where
  "generateRequestId e = ''req_'' @ show_int (id_now e) @ ''_'' @ id_random e"

text \<open>\<^verbatim>\<open>Subject.complete()\<close>.\<close>

definition subject_complete :: "nat \<Rightarrow> state \<Rightarrow> state" where
  "subject_complete s st = st\<lparr>subjects := (subjects st)[s := \<lparr>isStopped = True\<rparr>]\<rparr>"

text \<open>
  \<^verbatim>\<open>Subject.next()\<close>. The observers of an abort subject are the \<^verbatim>\<open>takeUntil\<close>
  operators of the open subscriptions of its observable: on the notification each
  completes its subscription and unsubscribes from the transport call, whose result
  is then never delivered. A stopped subject notifies nobody.
\<close>

definition subject_next :: "nat \<Rightarrow> state \<Rightarrow> state" where
  "subject_next s st =
     (if s < length (subjects st) \<and> \<not> isStopped (subjects st ! s)
      then st\<lparr>subscriptions :=
             map (\<lambda>sub. if o_abortSubject (s_source sub) = s then sub\<lparr>s_closed := True\<rparr> else sub)
               (subscriptions st)\<rparr>
      else st)"

definition cleanupRequest :: "string \<Rightarrow> state \<Rightarrow> state" where
  "cleanupRequest requestId st =
     (let st1 = (case abortSubjects st requestId of
                   Some abortSubject \<Rightarrow>
                     (let st0 = subject_complete abortSubject st
                      in st0\<lparr>abortSubjects := (abortSubjects st0)(requestId := None)\<rparr>)
                 | None \<Rightarrow> st)
      in st1\<lparr>requestMetadata := (requestMetadata st1)(requestId := None)\<rparr>)"

text \<open>\<^verbatim>\<open>abortRequest\<close>; \<open>t\<close> is what \<^verbatim>\<open>Date.now()\<close> returns during the call.\<close>

definition abortRequest :: "int \<Rightarrow> string \<Rightarrow> state \<Rightarrow> state" where
  "abortRequest t requestId st =
     (case (abortSubjects st requestId, requestMetadata st requestId) of
        (Some abortSubject, Some metadata) \<Rightarrow>
          (let duration = t - md_startTime metadata;
               st1 = st\<lparr>aiLog := aiLog st @ [LogAborted (md_logId metadata) duration]\<rparr>;
               st2 = subject_next abortSubject st1
           in cleanupRequest requestId st2)
      | _ \<Rightarrow> st)"

text \<open>
  \<^verbatim>\<open>generateText\<close>. The result pairs the state after the call with either the error
  thrown or the observable returned. The two \<^verbatim>\<open>throw\<close>s happen before any mutation.
\<close>

definition generateText ::
  "env \<Rightarrow> openRouter \<Rightarrow> string \<Rightarrow> options \<Rightarrow> state \<Rightarrow> state \<times> (error + observable)" where
  "generateText e settings prompt opts st =
     (let startTime = now e in
      if \<not> enabled settings \<or> apiKey settings = []
      then (st, Inl (Error ''OpenRouter API ist nicht aktiviert oder API-Key fehlt''))
      else
        let model = (case opt_model opts of
                       Some m \<Rightarrow> if m \<noteq> [] then m else cfg_model settings
                     | None \<Rightarrow> cfg_model settings) in
        if model = []
        then (st, Inl (Error (''Kein AI-Modell ausgew'' @ [char_of (228 :: nat)] @ ''hlt'')))
        else
          let maxTokens = (case opt_maxTokens opts of
                             Some m \<Rightarrow> if m \<noteq> 0 then m else 500
                           | None \<Rightarrow> 500);
              wordCount = (case opt_wordCount opts of
                             Some w \<Rightarrow> if w \<noteq> 0 then w
                                       else of_int \<lfloor>double_div maxTokens (to_double 1.3)\<rfloor>
                           | None \<Rightarrow> of_int \<lfloor>double_div maxTokens (to_double 1.3)\<rfloor>);
              logId = logRequest_result e;
              st1 = st\<lparr>aiLog := aiLog st @
                      [LogRequest \<lparr>lr_endpoint = API_URL, lr_model = model,
                         lr_wordCount = wordCount, lr_maxTokens = maxTokens,
                         lr_prompt = prompt\<rparr>]\<rparr>;
              headers = [(''Authorization'', ''Bearer '' @ apiKey settings),
                         (''Content-Type'', ''application/json''),
                         (''HTTP-Referer'', origin e),
                         (''X-Title'', ''Creative Writer'')];
              request = \<lparr>rq_model = model,
                         rq_messages = [\<lparr>role = User, content = prompt\<rparr>],
                         rq_max_tokens = Some maxTokens,
                         rq_temperature = Some (case opt_temperature opts of
                                                  Some v \<Rightarrow> v
                                                | None \<Rightarrow> cfg_temperature settings),
                         rq_top_p = Some (case opt_topP opts of
                                            Some v \<Rightarrow> v
                                          | None \<Rightarrow> cfg_topP settings),
                         rq_stream = None\<rparr>;
              requestId = (case opt_requestId opts of
                             Some r \<Rightarrow> if r \<noteq> [] then r else generateRequestId e
                           | None \<Rightarrow> generateRequestId e);
              abortSubject = length (subjects st1);
              st2 = st1\<lparr>subjects := subjects st1 @ [\<lparr>isStopped = False\<rparr>]\<rparr>;
              st3 = st2\<lparr>abortSubjects := (abortSubjects st2)(requestId \<mapsto> abortSubject)\<rparr>;
              st4 = st3\<lparr>requestMetadata := (requestMetadata st3)
                      (requestId \<mapsto> \<lparr>md_logId = logId, md_startTime = startTime\<rparr>)\<rparr>;
              obs = \<lparr>o_requestId = requestId, o_logId = logId, o_startTime = startTime,
                     o_abortSubject = abortSubject, o_request = request,
                     o_headers = headers\<rparr>
          in (st4\<lparr>observables := observables st4 @ [obs]\<rparr>, Inr obs))"

text \<open>
  Subscribing to the \<open>i\<close>-th observable returned so far: \<^verbatim>\<open>takeUntil\<close> subscribes to
  the abort subject (a subject that is already stopped only answers with \<^verbatim>\<open>complete\<close>,
  which \<^verbatim>\<open>takeUntil\<close> ignores), then \<^verbatim>\<open>http.post\<close> sends the request.
\<close>

definition subscribe :: "nat \<Rightarrow> state \<Rightarrow> state" where
  "subscribe i st =
     (if i < length (observables st)
      then (let obs = observables st ! i
            in st\<lparr>subscriptions := subscriptions st @ [\<lparr>s_source = obs, s_closed = False\<rparr>],
                  posts := posts st @
                    [\<lparr>p_url = API_URL, p_body = o_request obs, p_headers = o_headers obs\<rparr>]\<rparr>)
      else st)"

text \<open>\<^verbatim>\<open>response.choices?.[0]?.message?.content || ''\<close>.\<close>

definition response_content :: "OpenRouterResponse \<Rightarrow> string" where
  "response_content response =
     (case rs_choices response of [] \<Rightarrow> [] | c # _ \<Rightarrow> rm_content (ch_message c))"

text \<open>\<^verbatim>\<open>error.message || error.error?.message || 'Unknown error'\<close>.\<close>

definition errorMessage :: "http_error \<Rightarrow> string" where
  "errorMessage error =
     (case he_message error of
        Some m \<Rightarrow> if m \<noteq> [] then m else
          (case he_error error of
             Some b \<Rightarrow> (case eb_message b of
                          Some m' \<Rightarrow> if m' \<noteq> [] then m' else ''Unknown error''
                        | None \<Rightarrow> ''Unknown error'')
           | None \<Rightarrow> ''Unknown error'')
      | None \<Rightarrow>
          (case he_error error of
             Some b \<Rightarrow> (case eb_message b of
                          Some m' \<Rightarrow> if m' \<noteq> [] then m' else ''Unknown error''
                        | None \<Rightarrow> ''Unknown error'')
           | None \<Rightarrow> ''Unknown error''))"

text \<open>The \<^verbatim>\<open>next\<close> callback of \<^verbatim>\<open>tap\<close>, for the observable \<open>obs\<close>, at clock reading \<open>t\<close>.\<close>

definition tap_next :: "int \<Rightarrow> observable \<Rightarrow> OpenRouterResponse \<Rightarrow> state \<Rightarrow> state" where
  "tap_next t obs response st =
     (let duration = t - o_startTime obs;
          content = response_content response;
          st1 = st\<lparr>aiLog := aiLog st @ [LogSuccess (o_logId obs) content duration]\<rparr>
      in cleanupRequest (o_requestId obs) st1)"

text \<open>The \<^verbatim>\<open>error\<close> callback of \<^verbatim>\<open>tap\<close>.\<close>

definition tap_error :: "int \<Rightarrow> observable \<Rightarrow> http_error \<Rightarrow> state \<Rightarrow> state" where
  "tap_error t obs error st =
     (let duration = t - o_startTime obs;
          st1 = st\<lparr>aiLog := aiLog st @ [LogError (o_logId obs) (errorMessage error) duration]\<rparr>
      in cleanupRequest (o_requestId obs) st1)"

text \<open>
  The transport call of subscription \<open>k\<close> settles. An open subscription runs the
  matching callback and is finished (the HTTP observable completes after its one
  response, or errors). A closed subscription has unsubscribed: nothing is delivered.
\<close>

definition settle :: "int \<Rightarrow> nat \<Rightarrow> outcome \<Rightarrow> state \<Rightarrow> state" where
  "settle t k out st =
     (if k < length (subscriptions st) \<and> \<not> s_closed (subscriptions st ! k)
      then (let obs = s_source (subscriptions st ! k);
                st1 = (case out of
                         Next response \<Rightarrow> tap_next t obs response st
                       | Err error \<Rightarrow> tap_error t obs error st)
            in st1\<lparr>subscriptions :=
                 (subscriptions st1)[k := (subscriptions st1 ! k)\<lparr>s_closed := True\<rparr>]\<rparr>)
      else st)"

subsection \<open>Runs of the service\<close>

text \<open>
  The runtime is single-threaded: each call and each callback runs to completion.
  A run is a sequence of such steps, starting from the freshly constructed service.
\<close>

datatype event =
    GenerateText env openRouter string options
  | Subscribe nat
  | Settle int nat outcome
  | AbortRequest int string

fun step :: "state \<Rightarrow> event \<Rightarrow> state" where
  "step st (GenerateText e settings prompt opts) = fst (generateText e settings prompt opts st)"
| "step st (Subscribe i) = subscribe i st"
| "step st (Settle t k out) = settle t k out st"
| "step st (AbortRequest t requestId) = abortRequest t requestId st"

definition run :: "event list \<Rightarrow> state" where
  "run evs = foldl step initial evs"

subsection \<open>The registry invariant\<close>

text \<open>
  The two maps have the same keys; a registered subject exists and has not been
  completed; and no subject is registered under two ids.
\<close>

definition registry_inv :: "state \<Rightarrow> bool" where
  "registry_inv st \<longleftrightarrow>
     (\<forall>r. abortSubjects st r = None \<longleftrightarrow> requestMetadata st r = None) \<and>
     (\<forall>r s. abortSubjects st r = Some s \<longrightarrow>
        s < length (subjects st) \<and> \<not> isStopped (subjects st ! s)) \<and>
     (\<forall>r r' s. abortSubjects st r = Some s \<and> abortSubjects st r' = Some s \<longrightarrow> r = r')"

subsection \<open>Concrete inputs\<close>

text \<open>Settings, environments, options and a response on which the service is run below.\<close>

definition settings0 :: openRouter where
  "settings0 = \<lparr>enabled = True, apiKey = ''sk-test'', cfg_model = ''openai/gpt-4o'',
     cfg_temperature = 0.7, cfg_topP = 1\<rparr>"

definition env0 :: env where
  "env0 = \<lparr>now = 1000, logRequest_result = ''log1'', origin = ''http://localhost'',
     id_now = 1001, id_random = ''k3j9x2a''\<rparr>"

definition env1 :: env where
  "env1 = \<lparr>now = 2000, logRequest_result = ''log2'', origin = ''http://localhost'',
     id_now = 2001, id_random = ''p0q8w7e''\<rparr>"

definition no_options :: options where
  "no_options = \<lparr>opt_model = None, opt_maxTokens = None, opt_temperature = None,
     opt_topP = None, opt_wordCount = None, opt_requestId = None\<rparr>"

definition response0 :: OpenRouterResponse where
  "response0 = \<lparr>rs_id = ''gen-1'', rs_object = ''chat.completion'', rs_created = 1,
     rs_model = ''openai/gpt-4o'',
     rs_choices = [\<lparr>ch_index = 0,
        ch_message = \<lparr>rm_role = ''assistant'', rm_content = ''Once upon a time''\<rparr>,
        ch_finish_reason = ''stop''\<rparr>],
     rs_usage = \<lparr>prompt_tokens = 3, completion_tokens = 4, total_tokens = 7\<rparr>\<rparr>"

section \<open>Properties\<close>

subsection \<open>Frame and invariant lemmas\<close>

lemmas fixtures = settings0_def env0_def env1_def no_options_def response0_def
lemmas service_defs = run_def initial_def generateText_def subscribe_def settle_def
  abortRequest_def cleanupRequest_def subject_next_def subject_complete_def tap_next_def
  tap_error_def response_content_def errorMessage_def API_URL_def Let_def
lemmas double_defs = to_double_def double_div_def round_even_def pow2_def binade.simps


lemma cleanupRequest_abortSubjects [simp]:
  "abortSubjects (cleanupRequest r st) = (abortSubjects st)(r := None)"
  by (auto simp: cleanupRequest_def subject_complete_def Let_def split: option.splits)

lemma cleanupRequest_requestMetadata [simp]:
  "requestMetadata (cleanupRequest r st) = (requestMetadata st)(r := None)"
  by (simp add: cleanupRequest_def subject_complete_def Let_def split: option.splits)

lemma cleanupRequest_subjects:
  "subjects (cleanupRequest r st) =
     (case abortSubjects st r of
        Some s \<Rightarrow> (subjects st)[s := \<lparr>isStopped = True\<rparr>]
      | None \<Rightarrow> subjects st)"
  by (simp add: cleanupRequest_def subject_complete_def Let_def split: option.splits)

lemma cleanupRequest_frame [simp]:
  "aiLog (cleanupRequest r st) = aiLog st"
  "observables (cleanupRequest r st) = observables st"
  "subscriptions (cleanupRequest r st) = subscriptions st"
  "posts (cleanupRequest r st) = posts st"
  by (simp_all add: cleanupRequest_def subject_complete_def Let_def split: option.splits)

lemma subject_next_frame [simp]:
  "abortSubjects (subject_next s st) = abortSubjects st"
  "requestMetadata (subject_next s st) = requestMetadata st"
  "subjects (subject_next s st) = subjects st"
  "aiLog (subject_next s st) = aiLog st"
  "observables (subject_next s st) = observables st"
  "posts (subject_next s st) = posts st"
  by (simp_all add: subject_next_def)

lemma subject_next_length [simp]:
  "length (subscriptions (subject_next s st)) = length (subscriptions st)"
  by (simp add: subject_next_def)

lemma subject_next_closed:
  "k < length (subscriptions st) \<Longrightarrow> s_closed (subscriptions st ! k) \<Longrightarrow>
   s_closed (subscriptions (subject_next s st) ! k)"
  by (simp add: subject_next_def)

lemma subject_next_closes:
  "k < length (subscriptions st) \<Longrightarrow> s < length (subjects st) \<Longrightarrow>
   \<not> isStopped (subjects st ! s) \<Longrightarrow> o_abortSubject (s_source (subscriptions st ! k)) = s \<Longrightarrow>
   s_closed (subscriptions (subject_next s st) ! k)"
  by (simp add: subject_next_def)

lemma registry_inv_initial: "registry_inv initial"
  by (simp add: registry_inv_def initial_def)

lemma registry_inv_cleanupRequest:
  assumes "registry_inv st"
  shows "registry_inv (cleanupRequest r st)"
proof -
  have "\<And>r' s. r' \<noteq> r \<Longrightarrow> abortSubjects st r' = Some s \<Longrightarrow>
          s < length (subjects (cleanupRequest r st)) \<and>
          \<not> isStopped (subjects (cleanupRequest r st) ! s)"
  proof -
    fix r' s assume ne: "r' \<noteq> r" and m: "abortSubjects st r' = Some s"
    from assms m have b: "s < length (subjects st)" "\<not> isStopped (subjects st ! s)"
      by (auto simp: registry_inv_def)
    show "s < length (subjects (cleanupRequest r st)) \<and>
          \<not> isStopped (subjects (cleanupRequest r st) ! s)"
    proof (cases "abortSubjects st r")
      case None
      with b show ?thesis by (simp add: cleanupRequest_subjects)
    next
      case (Some s')
      with assms m ne have "s' \<noteq> s" by (auto simp: registry_inv_def)
      with b Some show ?thesis by (simp add: cleanupRequest_subjects)
    qed
  qed
  with assms show ?thesis
    by (auto simp: registry_inv_def)
qed

lemma registry_inv_subscriptions_update [simp]:
  "registry_inv (st\<lparr>subscriptions := x\<rparr>) = registry_inv st"
  "registry_inv (st\<lparr>aiLog := l\<rparr>) = registry_inv st"
  "registry_inv (st\<lparr>posts := p\<rparr>) = registry_inv st"
  "registry_inv (st\<lparr>observables := obs\<rparr>) = registry_inv st"
  by (simp_all add: registry_inv_def)

lemma registry_inv_subject_next [simp]:
  "registry_inv (subject_next s st) = registry_inv st"
  by (simp add: registry_inv_def)

lemma registry_inv_abortRequest:
  "registry_inv st \<Longrightarrow> registry_inv (abortRequest t r st)"
  by (auto simp: abortRequest_def Let_def intro!: registry_inv_cleanupRequest split: option.splits)

lemma registry_inv_settle:
  "registry_inv st \<Longrightarrow> registry_inv (settle t k out st)"
  by (auto simp: settle_def tap_next_def tap_error_def Let_def
      intro!: registry_inv_cleanupRequest split: outcome.splits)

lemma registry_inv_subscribe:
  "registry_inv st \<Longrightarrow> registry_inv (subscribe i st)"
  by (simp add: subscribe_def Let_def)

lemma registry_inv_generateText:
  assumes "registry_inv st"
  shows "registry_inv (fst (generateText e settings prompt opts st))"
proof -
  have fresh: "\<And>r s. abortSubjects st r = Some s \<Longrightarrow> s < length (subjects st)"
    using assms by (auto simp: registry_inv_def)
  have *: "registry_inv (st\<lparr>aiLog := l, subjects := subjects st @ [\<lparr>isStopped = False\<rparr>],
      abortSubjects := (abortSubjects st)(r \<mapsto> length (subjects st)),
      requestMetadata := (requestMetadata st)(r \<mapsto> md)\<rparr>)" for r md l
    using assms fresh unfolding registry_inv_def
    by (auto simp: nth_append dest: fresh)
  show ?thesis
    using assms * by (simp add: generateText_def Let_def)
qed

lemma registry_inv_step: "registry_inv st \<Longrightarrow> registry_inv (step st ev)"
  by (cases ev)
    (simp_all add: registry_inv_generateText registry_inv_subscribe registry_inv_settle
      registry_inv_abortRequest)

lemma registry_inv_foldl: "registry_inv st \<Longrightarrow> registry_inv (foldl step st evs)"
  by (induction evs arbitrary: st) (simp_all add: registry_inv_step)

lemma registry_inv_run: "registry_inv (run evs)"
  by (simp add: run_def registry_inv_foldl registry_inv_initial)

lemma subscriptions_generateText [simp]:
  "subscriptions (fst (generateText e settings prompt opts st)) = subscriptions st"
  by (simp add: generateText_def Let_def)

lemma closed_step:
  "k < length (subscriptions st) \<Longrightarrow> s_closed (subscriptions st ! k) \<Longrightarrow>
   k < length (subscriptions (step st ev)) \<and> s_closed (subscriptions (step st ev) ! k)"
proof (cases ev)
  case (GenerateText e settings prompt opts)
  assume "k < length (subscriptions st)" "s_closed (subscriptions st ! k)"
  with GenerateText show ?thesis by simp
next
  case (Subscribe i)
  assume "k < length (subscriptions st)" "s_closed (subscriptions st ! k)"
  with Subscribe show ?thesis by (simp add: subscribe_def Let_def nth_append)
next
  case (Settle t k' out)
  assume "k < length (subscriptions st)" "s_closed (subscriptions st ! k)"
  with Settle show ?thesis
    by (cases "k' = k")
      (auto simp: settle_def tap_next_def tap_error_def Let_def split: outcome.splits)
next
  case (AbortRequest t r)
  assume "k < length (subscriptions st)" "s_closed (subscriptions st ! k)"
  with AbortRequest show ?thesis
    by (auto simp: abortRequest_def Let_def subject_next_closed split: option.splits)
qed

lemma closed_foldl:
  "k < length (subscriptions st) \<Longrightarrow> s_closed (subscriptions st ! k) \<Longrightarrow>
   k < length (subscriptions (foldl step st evs)) \<and>
   s_closed (subscriptions (foldl step st evs) ! k)"
proof (induction evs arbitrary: st)
  case Nil
  then show ?case by simp
next
  case (Cons ev evs)
  from closed_step [OF Cons.prems, of ev] Cons.IH [of "step st ev"]
  show ?case by simp
qed

lemma settle_closed: 
  "k < length (subscriptions st) \<Longrightarrow> s_closed (subscriptions st ! k) \<Longrightarrow> settle t k out st = st"
  by (simp add: settle_def)

lemma abortRequest_closes:
  assumes inv: "registry_inv st"
    and k: "k < length (subscriptions st)"
    and reg: "abortSubjects st r = Some (o_abortSubject (s_source (subscriptions st ! k)))"
  shows "k < length (subscriptions (abortRequest t r st)) \<and>
         s_closed (subscriptions (abortRequest t r st) ! k)"
proof -
  let ?s = "o_abortSubject (s_source (subscriptions st ! k))"
  from inv reg have live: "?s < length (subjects st)" "\<not> isStopped (subjects st ! ?s)"
    by (auto simp: registry_inv_def)
  from inv have "abortSubjects st r = None \<longleftrightarrow> requestMetadata st r = None"
    by (simp add: registry_inv_def)
  with reg obtain md where md: "requestMetadata st r = Some md"
    by (cases "requestMetadata st r") simp_all
  let ?st1 = "st\<lparr>aiLog := aiLog st @ [LogAborted (md_logId md) (t - md_startTime md)]\<rparr>"
  have "s_closed (subscriptions (subject_next ?s ?st1) ! k)"
    using k live by (intro subject_next_closes) simp_all
  with k reg md show ?thesis
    by (simp add: abortRequest_def Let_def)
qed

lemma pow2_powi: "pow2 e = 2 powi e"
  by (simp add: pow2_def power_int_def power_inverse [symmetric] field_simps)

lemma pow2_pos [simp]: "0 < pow2 e"
  by (simp add: pow2_powi)









lemma hint_500: "\<lfloor>double_div 500 (to_double 1.3)\<rfloor> = 384"
  by (simp add: double_defs Let_def)








subsection \<open>Claims\<close>

text \<open>
  C1. The cancellation registry and the metadata store have the same keys in every
  state a run of the service reaches. After a terminal path has run for a request id
  (the success or the error callback of an unsettled transport call, or the abort of a
  registered id), neither map has an entry for that id.
\<close>

theorem registries_paired:
  "(abortSubjects (run evs) r = None \<longleftrightarrow> requestMetadata (run evs) r = None) \<and>
   (k < length (subscriptions (run evs)) \<and> \<not> s_closed (subscriptions (run evs) ! k) \<longrightarrow>
      abortSubjects (settle t k out (run evs))
        (o_requestId (s_source (subscriptions (run evs) ! k))) = None \<and>
      requestMetadata (settle t k out (run evs))
        (o_requestId (s_source (subscriptions (run evs) ! k))) = None) \<and>
   (abortSubjects (run evs) r \<noteq> None \<longrightarrow>
      abortSubjects (abortRequest t' r (run evs)) r = None \<and>
      requestMetadata (abortRequest t' r (run evs)) r = None)"
proof (intro conjI impI)
  show "abortSubjects (run evs) r = None \<longleftrightarrow> requestMetadata (run evs) r = None"
    using registry_inv_run [of evs] by (simp add: registry_inv_def)
next
  assume "k < length (subscriptions (run evs)) \<and> \<not> s_closed (subscriptions (run evs) ! k)"
  then show "abortSubjects (settle t k out (run evs))
        (o_requestId (s_source (subscriptions (run evs) ! k))) = None"
    and "requestMetadata (settle t k out (run evs))
        (o_requestId (s_source (subscriptions (run evs) ! k))) = None"
    by (simp_all add: settle_def tap_next_def tap_error_def Let_def split: outcome.splits)
next
  assume reg: "abortSubjects (run evs) r \<noteq> None"
  with registry_inv_run [of evs] have "requestMetadata (run evs) r \<noteq> None"
    by (simp add: registry_inv_def)
  with reg show "abortSubjects (abortRequest t' r (run evs)) r = None"
    and "requestMetadata (abortRequest t' r (run evs)) r = None"
    by (auto simp: abortRequest_def Let_def)
qed

theorem registries_paired_witness:
  "abortSubjects (run [GenerateText env0 settings0 ''p'' (no_options\<lparr>opt_requestId := Some ''r1''\<rparr>),
                       Subscribe 0]) ''r1'' \<noteq> None \<and>
   requestMetadata (run [GenerateText env0 settings0 ''p'' (no_options\<lparr>opt_requestId := Some ''r1''\<rparr>),
                         Subscribe 0]) ''r1'' \<noteq> None \<and>
   0 < length (subscriptions (run [GenerateText env0 settings0 ''p'' (no_options\<lparr>opt_requestId := Some ''r1''\<rparr>),
                                   Subscribe 0])) \<and>
   \<not> s_closed (subscriptions (run [GenerateText env0 settings0 ''p'' (no_options\<lparr>opt_requestId := Some ''r1''\<rparr>),
                                    Subscribe 0]) ! 0) \<and>
   abortSubjects (settle 1500 0 (Next response0)
      (run [GenerateText env0 settings0 ''p'' (no_options\<lparr>opt_requestId := Some ''r1''\<rparr>),
            Subscribe 0])) ''r1'' = None \<and>
   requestMetadata (settle 1500 0 (Next response0)
      (run [GenerateText env0 settings0 ''p'' (no_options\<lparr>opt_requestId := Some ''r1''\<rparr>),
            Subscribe 0])) ''r1'' = None \<and>
   abortSubjects (abortRequest 1200 ''r1''
      (run [GenerateText env0 settings0 ''p'' (no_options\<lparr>opt_requestId := Some ''r1''\<rparr>),
            Subscribe 0])) ''r1'' = None \<and>
   requestMetadata (abortRequest 1200 ''r1''
      (run [GenerateText env0 settings0 ''p'' (no_options\<lparr>opt_requestId := Some ''r1''\<rparr>),
            Subscribe 0])) ''r1'' = None"
proof -
  let ?evs = "[GenerateText env0 settings0 ''p'' (no_options\<lparr>opt_requestId := Some ''r1''\<rparr>),
               Subscribe 0]"
  have h1: "abortSubjects (run ?evs) ''r1'' \<noteq> None"
    by (simp add: fixtures service_defs)
  have h2: "0 < length (subscriptions (run ?evs))"
    by (simp add: fixtures service_defs)
  have h3: "\<not> s_closed (subscriptions (run ?evs) ! 0)"
    by (simp add: fixtures service_defs)
  have h4: "o_requestId (s_source (subscriptions (run ?evs) ! 0)) = ''r1''"
    by (simp add: fixtures service_defs)
  from registries_paired [of ?evs "''r1''" 0 1500 "Next response0" 1200] h1 h2 h3
  show ?thesis unfolding h4 by blast
qed

text \<open>
  C2. Once \<^verbatim>\<open>abortRequest(id)\<close> has run before the transport call of that request
  settled, the settlement (success or error) must not trigger \<^verbatim>\<open>logSuccess\<close> or
  \<^verbatim>\<open>logError\<close> for the audit entry of \<open>id\<close>. The service breaks this when the abort
  falls between the call of \<^verbatim>\<open>generateText\<close> and the subscription to the observable
  it returned. The registration is made at the call, but the observable is cold:
  \<^verbatim>\<open>abortRequest\<close> finds the id registered, calls \<^verbatim>\<open>logAborted\<close>, notifies an abort
  subject that has no observer yet and completes it; \<^verbatim>\<open>takeUntil\<close> ignores a notifier
  that only completes, so the later subscription posts the request, and its response
  reaches the \<^verbatim>\<open>next\<close> callback. The run below ends with \<^verbatim>\<open>logAborted\<close> followed by
  \<^verbatim>\<open>logSuccess\<close> for the same audit entry.
\<close>

theorem late_subscription_counterexample:
  "aiLog (run [GenerateText env0 settings0 ''p'' (no_options\<lparr>opt_requestId := Some ''r1''\<rparr>),
               AbortRequest 1200 ''r1'', Subscribe 0, Settle 1500 0 (Next response0)]) =
   [LogRequest \<lparr>lr_endpoint = API_URL, lr_model = ''openai/gpt-4o'', lr_wordCount = 384,
      lr_maxTokens = 500, lr_prompt = ''p''\<rparr>,
    LogAborted ''log1'' 200,
    LogSuccess ''log1'' ''Once upon a time'' 500]"
  by (simp add: fixtures service_defs hint_500)

text \<open>
  The path on which the abort works. In every reachable state, if \<^verbatim>\<open>abortRequest(id)\<close>
  runs while a subscription of the observable registered under \<open>id\<close> is open (its
  transport call is issued and has not settled), then after the abort, and after any
  further steps of the service, the settlement of that transport call (success or
  error) changes nothing: no \<^verbatim>\<open>logSuccess\<close> and no \<^verbatim>\<open>logError\<close> is called for it.
\<close>

theorem abort_discards_transport_result:
  assumes "k < length (subscriptions (run evs))"
    and "\<not> s_closed (subscriptions (run evs) ! k)"
    and "abortSubjects (run evs) r =
           Some (o_abortSubject (s_source (subscriptions (run evs) ! k)))"
  shows "settle t' k out (foldl step (abortRequest t r (run evs)) evs') =
           foldl step (abortRequest t r (run evs)) evs'"
proof -
  have "k < length (subscriptions (abortRequest t r (run evs))) \<and>
        s_closed (subscriptions (abortRequest t r (run evs)) ! k)"
    using assms(1,3) by (intro abortRequest_closes registry_inv_run)
  then have "k < length (subscriptions (foldl step (abortRequest t r (run evs)) evs')) \<and>
        s_closed (subscriptions (foldl step (abortRequest t r (run evs)) evs') ! k)"
    by (intro closed_foldl) simp_all
  then show ?thesis by (simp add: settle_closed)
qed

theorem abort_discards_transport_result_witness:
  "0 < length (subscriptions (run [GenerateText env0 settings0 ''p'' (no_options\<lparr>opt_requestId := Some ''r1''\<rparr>), Subscribe 0])) \<and>
   \<not> s_closed (subscriptions (run [GenerateText env0 settings0 ''p'' (no_options\<lparr>opt_requestId := Some ''r1''\<rparr>), Subscribe 0]) ! 0) \<and>
   abortSubjects (run [GenerateText env0 settings0 ''p'' (no_options\<lparr>opt_requestId := Some ''r1''\<rparr>), Subscribe 0]) ''r1'' =
     Some (o_abortSubject (s_source (subscriptions (run [GenerateText env0 settings0 ''p'' (no_options\<lparr>opt_requestId := Some ''r1''\<rparr>), Subscribe 0]) ! 0))) \<and>
   settle 1500 0 (Next response0)
     (foldl step (abortRequest 1200 ''r1'' (run [GenerateText env0 settings0 ''p'' (no_options\<lparr>opt_requestId := Some ''r1''\<rparr>), Subscribe 0]))
        [Subscribe 7]) =
   foldl step (abortRequest 1200 ''r1'' (run [GenerateText env0 settings0 ''p'' (no_options\<lparr>opt_requestId := Some ''r1''\<rparr>), Subscribe 0]))
     [Subscribe 7]"
proof -
  let ?evs = "[GenerateText env0 settings0 ''p'' (no_options\<lparr>opt_requestId := Some ''r1''\<rparr>), Subscribe 0]"
  have h1: "0 < length (subscriptions (run ?evs))"
    by (simp add: fixtures service_defs)
  have h2: "\<not> s_closed (subscriptions (run ?evs) ! 0)"
    by (simp add: fixtures service_defs)
  have h3: "abortSubjects (run ?evs) ''r1'' =
     Some (o_abortSubject (s_source (subscriptions (run ?evs) ! 0)))"
    by (simp add: fixtures service_defs)
  from abort_discards_transport_result [OF h1 h2 h3, of 1500 "Next response0" 1200 "[Subscribe 7]"]
    h1 h2 h3
  show ?thesis by blast
qed

text \<open>
  C3. When validation fails (the integration is disabled, the API key is missing, or
  neither the caller's model override nor the configured default names a model),
  \<^verbatim>\<open>generateText\<close> throws before it returns, and the service is left exactly as it
  was: no audit-logger call is recorded and neither map is touched.
\<close>

theorem generateText_validation_failure:
  "\<not> enabled settings \<or> apiKey settings = [] \<or>
     ((opt_model opts = None \<or> opt_model opts = Some []) \<and> cfg_model settings = [])
   \<Longrightarrow> \<exists>msg. generateText e settings prompt opts st = (st, Inl (Error msg))"
  by (auto simp: generateText_def Let_def)

theorem generateText_validation_failure_witness:
  "\<not> enabled (settings0\<lparr>enabled := False\<rparr>) \<and>
   (\<exists>msg. generateText env0 (settings0\<lparr>enabled := False\<rparr>) ''p'' no_options initial =
       (initial, Inl (Error msg))) \<and>
   apiKey (settings0\<lparr>apiKey := []\<rparr>) = [] \<and>
   (\<exists>msg. generateText env0 (settings0\<lparr>apiKey := []\<rparr>) ''p'' no_options initial =
       (initial, Inl (Error msg))) \<and>
   opt_model no_options = None \<and> cfg_model (settings0\<lparr>cfg_model := []\<rparr>) = [] \<and>
   (\<exists>msg. generateText env0 (settings0\<lparr>cfg_model := []\<rparr>) ''p'' no_options initial =
       (initial, Inl (Error msg)))"
  using generateText_validation_failure [of "settings0\<lparr>enabled := False\<rparr>" no_options env0 "''p''" initial]
    generateText_validation_failure [of "settings0\<lparr>apiKey := []\<rparr>" no_options env0 "''p''" initial]
    generateText_validation_failure [of "settings0\<lparr>cfg_model := []\<rparr>" no_options env0 "''p''" initial]
  by (simp add: settings0_def no_options_def)

text \<open>
  C4. \<^verbatim>\<open>abortRequest(id)\<close> changes nothing when \<open>id\<close> is not registered. For a
  registered id the first call appends exactly one \<^verbatim>\<open>logAborted\<close> call to the audit
  trail, and a second call right after it changes nothing more.
\<close>

theorem abortRequest_idempotent:
  "(abortSubjects st r = None \<or> requestMetadata st r = None \<longrightarrow> abortRequest t r st = st) \<and>
   (abortSubjects st r = Some s \<and> requestMetadata st r = Some md \<longrightarrow>
      aiLog (abortRequest t r st) =
        aiLog st @ [LogAborted (md_logId md) (t - md_startTime md)] \<and>
      abortRequest t' r (abortRequest t r st) = abortRequest t r st \<and>
      aiLog (abortRequest t' r (abortRequest t r st)) =
        aiLog st @ [LogAborted (md_logId md) (t - md_startTime md)])"
proof -
  have noop: "abortRequest u r x = x" if "abortSubjects x r = None" for u x
    using that by (simp add: abortRequest_def)
  have noop': "abortRequest t r st = st" if "requestMetadata st r = None"
    using that by (simp add: abortRequest_def split: option.splits)
  have once: "aiLog (abortRequest t r st) =
        aiLog st @ [LogAborted (md_logId md) (t - md_startTime md)]"
    and gone: "abortSubjects (abortRequest t r st) r = None"
    if "abortSubjects st r = Some s" "requestMetadata st r = Some md"
    using that by (simp_all add: abortRequest_def Let_def)
  from noop noop' once gone show ?thesis by auto
qed

theorem abortRequest_idempotent_witness:
  "abortSubjects (run [GenerateText env0 settings0 ''p'' (no_options\<lparr>opt_requestId := Some ''r1''\<rparr>),
                       Subscribe 0]) ''nonexistent'' = None \<and>
   abortRequest 1200 ''nonexistent''
     (run [GenerateText env0 settings0 ''p'' (no_options\<lparr>opt_requestId := Some ''r1''\<rparr>),
           Subscribe 0]) =
     run [GenerateText env0 settings0 ''p'' (no_options\<lparr>opt_requestId := Some ''r1''\<rparr>),
          Subscribe 0] \<and>
   abortSubjects (run [GenerateText env0 settings0 ''p'' (no_options\<lparr>opt_requestId := Some ''r1''\<rparr>),
                       Subscribe 0]) ''r1'' = Some 0 \<and>
   requestMetadata (run [GenerateText env0 settings0 ''p'' (no_options\<lparr>opt_requestId := Some ''r1''\<rparr>),
                         Subscribe 0]) ''r1'' = Some \<lparr>md_logId = ''log1'', md_startTime = 1000\<rparr> \<and>
   aiLog (abortRequest 1300 ''r1'' (abortRequest 1200 ''r1''
     (run [GenerateText env0 settings0 ''p'' (no_options\<lparr>opt_requestId := Some ''r1''\<rparr>),
           Subscribe 0]))) =
     aiLog (run [GenerateText env0 settings0 ''p'' (no_options\<lparr>opt_requestId := Some ''r1''\<rparr>),
                 Subscribe 0]) @ [LogAborted ''log1'' 200]"
proof -
  let ?st = "run [GenerateText env0 settings0 ''p'' (no_options\<lparr>opt_requestId := Some ''r1''\<rparr>),
                  Subscribe 0]"
  have h1: "abortSubjects ?st ''nonexistent'' = None"
    by (simp add: fixtures service_defs)
  have h2: "abortSubjects ?st ''r1'' = Some 0"
    by (simp add: fixtures service_defs)
  have h3: "requestMetadata ?st ''r1'' = Some \<lparr>md_logId = ''log1'', md_startTime = 1000\<rparr>"
    by (simp add: fixtures service_defs)
  from abortRequest_idempotent [of ?st "''nonexistent''" 1200] h1
  have a: "abortRequest 1200 ''nonexistent'' ?st = ?st" by blast
  from abortRequest_idempotent
    [of ?st "''r1''" 1200 0 "\<lparr>md_logId = ''log1'', md_startTime = 1000\<rparr>" 1300] h2 h3
  have b: "aiLog (abortRequest 1300 ''r1'' (abortRequest 1200 ''r1'' ?st)) =
     aiLog ?st @ [LogAborted ''log1'' 200]" by simp
  from h1 a h2 h3 b show ?thesis by blast
qed

text \<open>
  C5 (as stated, refuted). The claim prefers the structured message of the error
  body over the generic transport message. The error callback evaluates
  \<^verbatim>\<open>error.message || error.error?.message || 'Unknown error'\<close>: with both messages
  present, the generic transport message is the one logged.
\<close>

theorem error_message_counterexample:
  "aiLog (run [GenerateText env0 settings0 ''p'' no_options, Subscribe 0,
               Settle 1500 0 (Err \<lparr>he_message = Some ''Http failure response'',
                  he_error = Some \<lparr>eb_message = Some ''Rate limit exceeded''\<rparr>\<rparr>)]) =
   [LogRequest \<lparr>lr_endpoint = API_URL, lr_model = ''openai/gpt-4o'', lr_wordCount = 384,
      lr_maxTokens = 500, lr_prompt = ''p''\<rparr>,
    LogError ''log1'' ''Http failure response'' 500]"
  by (simp add: fixtures service_defs hint_500)

text \<open>
  C5 (amended). When an unsettled transport call errors, exactly one \<^verbatim>\<open>logError\<close> call
  is appended, and its message is: \<^verbatim>\<open>error.message\<close> (the generic transport message)
  when that is present and non-empty; otherwise \<^verbatim>\<open>error.error.message\<close> (the message
  of the structured error body) when that is present and non-empty; otherwise the
  literal \<^verbatim>\<open>Unknown error\<close>.
\<close>

theorem error_message_preference:
  "(k < length (subscriptions st) \<and> \<not> s_closed (subscriptions st ! k) \<longrightarrow>
      aiLog (settle t k (Err error) st) =
        aiLog st @ [LogError (o_logId (s_source (subscriptions st ! k))) (errorMessage error)
                      (t - o_startTime (s_source (subscriptions st ! k)))]) \<and>
   (he_message error = Some m \<and> m \<noteq> [] \<longrightarrow> errorMessage error = m) \<and>
   ((he_message error = None \<or> he_message error = Some []) \<and>
      he_error error = Some b \<and> eb_message b = Some m \<and> m \<noteq> [] \<longrightarrow>
      errorMessage error = m) \<and>
   ((he_message error = None \<or> he_message error = Some []) \<and>
      (he_error error = None \<or>
       (\<exists>b'. he_error error = Some b' \<and> (eb_message b' = None \<or> eb_message b' = Some []))) \<longrightarrow>
      errorMessage error = ''Unknown error'')"
proof (intro conjI impI)
  assume "k < length (subscriptions st) \<and> \<not> s_closed (subscriptions st ! k)"
  then show "aiLog (settle t k (Err error) st) =
        aiLog st @ [LogError (o_logId (s_source (subscriptions st ! k))) (errorMessage error)
                      (t - o_startTime (s_source (subscriptions st ! k)))]"
    by (simp add: settle_def tap_error_def Let_def)
next
  assume "he_message error = Some m \<and> m \<noteq> []"
  then show "errorMessage error = m" by (simp add: errorMessage_def)
next
  assume "(he_message error = None \<or> he_message error = Some []) \<and>
      he_error error = Some b \<and> eb_message b = Some m \<and> m \<noteq> []"
  then show "errorMessage error = m" by (auto simp: errorMessage_def)
next
  assume "(he_message error = None \<or> he_message error = Some []) \<and>
      (he_error error = None \<or>
       (\<exists>b'. he_error error = Some b' \<and> (eb_message b' = None \<or> eb_message b' = Some [])))"
  then show "errorMessage error = ''Unknown error''" by (auto simp: errorMessage_def)
qed

theorem error_message_preference_witness:
  "0 < length (subscriptions (run [GenerateText env0 settings0 ''p'' no_options, Subscribe 0])) \<and>
   \<not> s_closed (subscriptions (run [GenerateText env0 settings0 ''p'' no_options, Subscribe 0]) ! 0) \<and>
   aiLog (settle 1500 0 (Err \<lparr>he_message = None,
            he_error = Some \<lparr>eb_message = Some ''Rate limit exceeded''\<rparr>\<rparr>)
          (run [GenerateText env0 settings0 ''p'' no_options, Subscribe 0])) =
     aiLog (run [GenerateText env0 settings0 ''p'' no_options, Subscribe 0]) @
       [LogError ''log1'' ''Rate limit exceeded'' 500] \<and>
   errorMessage \<lparr>he_message = Some ''Http failure response'',
       he_error = Some \<lparr>eb_message = Some ''Rate limit exceeded''\<rparr>\<rparr> = ''Http failure response'' \<and>
   errorMessage \<lparr>he_message = Some [], he_error = Some \<lparr>eb_message = None\<rparr>\<rparr> = ''Unknown error''"
proof -
  let ?st = "run [GenerateText env0 settings0 ''p'' no_options, Subscribe 0]"
  let ?e = "\<lparr>he_message = None, he_error = Some \<lparr>eb_message = Some ''Rate limit exceeded''\<rparr>\<rparr>"
  have h1: "0 < length (subscriptions ?st)"
    by (simp add: fixtures service_defs)
  have h2: "\<not> s_closed (subscriptions ?st ! 0)"
    by (simp add: fixtures service_defs)
  have h3: "o_logId (s_source (subscriptions ?st ! 0)) = ''log1''"
    "o_startTime (s_source (subscriptions ?st ! 0)) = 1000"
    by (simp_all add: fixtures service_defs)
  from error_message_preference
    [of 0 ?st 1500 ?e "''Rate limit exceeded''" "\<lparr>eb_message = Some ''Rate limit exceeded''\<rparr>"]
    h1 h2
  have a: "aiLog (settle 1500 0 (Err ?e) ?st) =
      aiLog ?st @ [LogError ''log1'' ''Rate limit exceeded'' 500]"
    unfolding h3 by simp
  from error_message_preference
    [of 0 ?st 1500 "\<lparr>he_message = Some ''Http failure response'',
       he_error = Some \<lparr>eb_message = Some ''Rate limit exceeded''\<rparr>\<rparr>" "''Http failure response''"]
  have b: "errorMessage \<lparr>he_message = Some ''Http failure response'',
       he_error = Some \<lparr>eb_message = Some ''Rate limit exceeded''\<rparr>\<rparr> = ''Http failure response''"
    by simp
  from error_message_preference
    [of 0 ?st 1500 "\<lparr>he_message = Some [], he_error = Some \<lparr>eb_message = None\<rparr>\<rparr>"]
  have c: "errorMessage \<lparr>he_message = Some [], he_error = Some \<lparr>eb_message = None\<rparr>\<rparr> =
      ''Unknown error''"
    by simp
  from h1 h2 a b c show ?thesis by blast
qed

text \<open>
  C6 (as stated, refuted). The claim asks that registering an id that is already
  registered fails. \<^verbatim>\<open>generateText\<close> checks nothing before \<^verbatim>\<open>Map.set\<close>: a second call
  with the id of a request still in flight returns its observable and replaces both
  entries of the first.
\<close>

theorem duplicate_id_counterexample:
  "abortSubjects (run [GenerateText env0 settings0 ''p'' (no_options\<lparr>opt_requestId := Some ''r1''\<rparr>)])
     ''r1'' = Some 0 \<and>
   \<not> isl (snd (generateText env1 settings0 ''q'' (no_options\<lparr>opt_requestId := Some ''r1''\<rparr>)
     (run [GenerateText env0 settings0 ''p'' (no_options\<lparr>opt_requestId := Some ''r1''\<rparr>)]))) \<and>
   abortSubjects (fst (generateText env1 settings0 ''q'' (no_options\<lparr>opt_requestId := Some ''r1''\<rparr>)
     (run [GenerateText env0 settings0 ''p'' (no_options\<lparr>opt_requestId := Some ''r1''\<rparr>)])))
     ''r1'' = Some 1 \<and>
   requestMetadata (fst (generateText env1 settings0 ''q'' (no_options\<lparr>opt_requestId := Some ''r1''\<rparr>)
     (run [GenerateText env0 settings0 ''p'' (no_options\<lparr>opt_requestId := Some ''r1''\<rparr>)])))
     ''r1'' = Some \<lparr>md_logId = ''log2'', md_startTime = 2000\<rparr>"
  by (simp add: fixtures service_defs)

text \<open>
  C6 (amended). In every reachable state, a call of \<^verbatim>\<open>generateText\<close> that passes
  validation and carries a non-empty \<^verbatim>\<open>options.requestId\<close> that is currently
  registered raises no error: it returns an observable for that id and overwrites the
  registration. The cancellation registry then holds a fresh subject, different from
  the one registered before, and the metadata store holds the log id and start time
  of the new call.
\<close>

theorem duplicate_id_overwrites:
  assumes "enabled settings" and "apiKey settings \<noteq> []"
    and "(\<exists>m. opt_model opts = Some m \<and> m \<noteq> []) \<or> cfg_model settings \<noteq> []"
    and "opt_requestId opts = Some r" and "r \<noteq> []"
    and "abortSubjects (run evs) r = Some s"
  shows "\<exists>st' obs. generateText e settings prompt opts (run evs) = (st', Inr obs) \<and>
           o_requestId obs = r \<and>
           abortSubjects st' r = Some (length (subjects (run evs))) \<and>
           length (subjects (run evs)) \<noteq> s \<and>
           requestMetadata st' r =
             Some \<lparr>md_logId = logRequest_result e, md_startTime = now e\<rparr>"
proof -
  from registry_inv_run [of evs] assms(6) have "s < length (subjects (run evs))"
    by (simp add: registry_inv_def)
  moreover have "(case opt_model opts of None \<Rightarrow> cfg_model settings
      | Some m \<Rightarrow> if m \<noteq> [] then m else cfg_model settings) \<noteq> []"
    using assms(3) by (auto split: option.splits)
  ultimately show ?thesis
    using assms(1,2,4,5) by (simp add: generateText_def Let_def)
qed

theorem duplicate_id_overwrites_witness:
  "enabled settings0 \<and> apiKey settings0 \<noteq> [] \<and> cfg_model settings0 \<noteq> [] \<and>
   opt_requestId (no_options\<lparr>opt_requestId := Some ''r1''\<rparr>) = Some ''r1'' \<and>
   abortSubjects (run [GenerateText env0 settings0 ''p'' (no_options\<lparr>opt_requestId := Some ''r1''\<rparr>)])
     ''r1'' = Some 0 \<and>
   (\<exists>st' obs. generateText env1 settings0 ''q'' (no_options\<lparr>opt_requestId := Some ''r1''\<rparr>)
       (run [GenerateText env0 settings0 ''p'' (no_options\<lparr>opt_requestId := Some ''r1''\<rparr>)]) =
       (st', Inr obs) \<and>
     o_requestId obs = ''r1'' \<and>
     abortSubjects st' ''r1'' = Some (length (subjects
       (run [GenerateText env0 settings0 ''p'' (no_options\<lparr>opt_requestId := Some ''r1''\<rparr>)]))) \<and>
     length (subjects
       (run [GenerateText env0 settings0 ''p'' (no_options\<lparr>opt_requestId := Some ''r1''\<rparr>)])) \<noteq> 0 \<and>
     requestMetadata st' ''r1'' =
       Some \<lparr>md_logId = logRequest_result env1, md_startTime = now env1\<rparr>)"
proof -
  let ?opts = "no_options\<lparr>opt_requestId := Some ''r1''\<rparr>"
  let ?evs = "[GenerateText env0 settings0 ''p'' ?opts]"
  have h1: "enabled settings0" and h2: "apiKey settings0 \<noteq> []"
    and h3: "cfg_model settings0 \<noteq> []"
    by (simp_all add: settings0_def)
  from h3 have h3': "(\<exists>m. opt_model ?opts = Some m \<and> m \<noteq> []) \<or> cfg_model settings0 \<noteq> []"
    by simp
  have h4: "opt_requestId ?opts = Some ''r1''" and h5: "''r1'' \<noteq> []"
    by simp_all
  have h6: "abortSubjects (run ?evs) ''r1'' = Some 0"
    by (simp add: fixtures service_defs)
  from duplicate_id_overwrites [OF h1 h2 h3' h4 h5 h6, of env1 "''q''"] h1 h2 h3 h4 h6
  show ?thesis by blast
qed

text \<open>
  C7 (as stated, refuted). The claim resolves max-tokens with an is-present check, so
  that a supplied \<open>0\<close> is kept. The source writes \<^verbatim>\<open>options.maxTokens || 500\<close>: a
  supplied \<open>0\<close> is falsy and the request goes out with \<open>500\<close>.
\<close>

theorem max_tokens_zero_counterexample:
  "map (rq_max_tokens \<circ> p_body)
     (posts (run [GenerateText env0 settings0 ''p'' (no_options\<lparr>opt_maxTokens := Some 0\<rparr>),
                  Subscribe 0])) = [Some 500]"
  by (simp add: fixtures service_defs)

text \<open>
  C7 (amended). The max-tokens value of the assembled request equals
  \<^verbatim>\<open>options.maxTokens\<close> when that field is present and not zero, and \<open>500\<close> when it is
  absent or zero: the resolution is \<^verbatim>\<open>options.maxTokens || 500\<close>, a truthiness check.
\<close>

theorem max_tokens_resolution:
  "snd (generateText e settings prompt opts st) = Inr obs \<Longrightarrow>
   (opt_maxTokens opts = Some m \<and> m \<noteq> 0 \<longrightarrow> rq_max_tokens (o_request obs) = Some m) \<and>
   (opt_maxTokens opts = None \<or> opt_maxTokens opts = Some 0 \<longrightarrow>
      rq_max_tokens (o_request obs) = Some 500)"
  by (auto simp: generateText_def Let_def split: if_splits)

theorem max_tokens_resolution_witness:
  "snd (generateText env0 settings0 ''p'' (no_options\<lparr>opt_maxTokens := Some 130\<rparr>) initial) =
     Inr (projr (snd (generateText env0 settings0 ''p''
                   (no_options\<lparr>opt_maxTokens := Some 130\<rparr>) initial))) \<and>
   opt_maxTokens (no_options\<lparr>opt_maxTokens := Some 130\<rparr>) = Some 130 \<and>
   rq_max_tokens (o_request (projr (snd (generateText env0 settings0 ''p''
                   (no_options\<lparr>opt_maxTokens := Some 130\<rparr>) initial)))) = Some 130"
proof -
  let ?opts = "no_options\<lparr>opt_maxTokens := Some 130\<rparr>"
  have h: "snd (generateText env0 settings0 ''p'' ?opts initial) =
     Inr (projr (snd (generateText env0 settings0 ''p'' ?opts initial)))"
    by (simp add: fixtures service_defs)
  from max_tokens_resolution [OF h, of 130] h show ?thesis by simp
qed

text \<open>
  C8. The temperature and top-p of the assembled request are the caller's values when
  supplied and the configured defaults otherwise; a supplied \<open>0\<close> is sent as \<open>0\<close>.
  Subscribing to the returned observable posts exactly the assembled request.
\<close>

theorem sampling_parameters:
  "snd (generateText e settings prompt opts st) = Inr obs \<Longrightarrow>
   rq_temperature (o_request obs) =
     Some (case opt_temperature opts of Some v \<Rightarrow> v | None \<Rightarrow> cfg_temperature settings) \<and>
   rq_top_p (o_request obs) =
     Some (case opt_topP opts of Some v \<Rightarrow> v | None \<Rightarrow> cfg_topP settings) \<and>
   (opt_temperature opts = Some 0 \<longrightarrow> rq_temperature (o_request obs) = Some 0) \<and>
   (opt_topP opts = Some 0 \<longrightarrow> rq_top_p (o_request obs) = Some 0) \<and>
   p_body (last (posts (subscribe (length (observables st))
                          (fst (generateText e settings prompt opts st))))) = o_request obs"
  by (auto simp: generateText_def subscribe_def Let_def split: if_splits)

theorem sampling_parameters_witness:
  "snd (generateText env0 settings0 ''p'' (no_options\<lparr>opt_temperature := Some 0\<rparr>) initial) =
     Inr (projr (snd (generateText env0 settings0 ''p''
                   (no_options\<lparr>opt_temperature := Some 0\<rparr>) initial))) \<and>
   opt_temperature (no_options\<lparr>opt_temperature := Some 0\<rparr>) = Some 0 \<and>
   cfg_temperature settings0 = 0.7 \<and>
   rq_temperature (o_request (projr (snd (generateText env0 settings0 ''p''
                   (no_options\<lparr>opt_temperature := Some 0\<rparr>) initial)))) = Some 0 \<and>
   rq_top_p (o_request (projr (snd (generateText env0 settings0 ''p''
                   (no_options\<lparr>opt_temperature := Some 0\<rparr>) initial)))) = Some 1 \<and>
   rq_temperature (p_body (last (posts (subscribe (length (observables initial))
     (fst (generateText env0 settings0 ''p''
            (no_options\<lparr>opt_temperature := Some 0\<rparr>) initial)))))) = Some 0"
proof -
  let ?opts = "no_options\<lparr>opt_temperature := Some 0\<rparr>"
  have h: "snd (generateText env0 settings0 ''p'' ?opts initial) =
     Inr (projr (snd (generateText env0 settings0 ''p'' ?opts initial)))"
    by (simp add: fixtures service_defs)
  have c: "opt_temperature ?opts = Some 0" "opt_topP ?opts = None"
    "cfg_temperature settings0 = 0.7" "cfg_topP settings0 = 1"
    by (simp_all add: fixtures)
  from sampling_parameters [OF h] h c show ?thesis by simp
qed




text \<open>
  C10. An empty-string model override is treated as absent: the call behaves exactly
  as without an override. With the integration enabled and an API key present, it
  uses the configured default model when that is non-empty and throws when that is
  empty too. The model of an assembled request is never the empty string.
\<close>

theorem empty_model_override:
  "generateText e settings prompt (opts\<lparr>opt_model := Some []\<rparr>) st =
     generateText e settings prompt (opts\<lparr>opt_model := None\<rparr>) st \<and>
   (enabled settings \<and> apiKey settings \<noteq> [] \<and> cfg_model settings \<noteq> [] \<longrightarrow>
      (\<exists>obs. snd (generateText e settings prompt (opts\<lparr>opt_model := Some []\<rparr>) st) = Inr obs \<and>
         rq_model (o_request obs) = cfg_model settings)) \<and>
   (enabled settings \<and> apiKey settings \<noteq> [] \<and> cfg_model settings = [] \<longrightarrow>
      generateText e settings prompt (opts\<lparr>opt_model := Some []\<rparr>) st =
        (st, Inl (Error (''Kein AI-Modell ausgew'' @ [char_of (228 :: nat)] @ ''hlt'')))) \<and>
   (\<forall>obs. snd (generateText e settings prompt opts st) = Inr obs \<longrightarrow>
      rq_model (o_request obs) \<noteq> [])"
  by (auto simp: generateText_def Let_def split: if_splits)

theorem empty_model_override_witness:
  "enabled settings0 \<and> apiKey settings0 \<noteq> [] \<and> cfg_model settings0 \<noteq> [] \<and>
   (\<exists>obs. snd (generateText env0 settings0 ''p'' (no_options\<lparr>opt_model := Some []\<rparr>) initial) =
       Inr obs \<and> rq_model (o_request obs) = ''openai/gpt-4o'') \<and>
   enabled (settings0\<lparr>cfg_model := []\<rparr>) \<and> apiKey (settings0\<lparr>cfg_model := []\<rparr>) \<noteq> [] \<and>
   cfg_model (settings0\<lparr>cfg_model := []\<rparr>) = [] \<and>
   generateText env0 (settings0\<lparr>cfg_model := []\<rparr>) ''p'' (no_options\<lparr>opt_model := Some []\<rparr>) initial =
     (initial, Inl (Error (''Kein AI-Modell ausgew'' @ [char_of (228 :: nat)] @ ''hlt'')))"
proof -
  have c: "enabled settings0" "apiKey settings0 \<noteq> []" "cfg_model settings0 = ''openai/gpt-4o''"
    by (simp_all add: settings0_def)
  have d: "enabled (settings0\<lparr>cfg_model := []\<rparr>)" "apiKey (settings0\<lparr>cfg_model := []\<rparr>) \<noteq> []"
    "cfg_model (settings0\<lparr>cfg_model := []\<rparr>) = []"
    by (simp_all add: settings0_def)
  from c have c': "cfg_model settings0 \<noteq> []"
    by simp
  from empty_model_override [of env0 settings0 "''p''" no_options initial] c(1,2) c'
  have "\<exists>obs. snd (generateText env0 settings0 ''p'' (no_options\<lparr>opt_model := Some []\<rparr>) initial) =
       Inr obs \<and> rq_model (o_request obs) = cfg_model settings0"
    by blast
  then have a: "\<exists>obs. snd (generateText env0 settings0 ''p'' (no_options\<lparr>opt_model := Some []\<rparr>) initial) =
       Inr obs \<and> rq_model (o_request obs) = ''openai/gpt-4o''"
    unfolding c(3) .
  from empty_model_override [of env0 "settings0\<lparr>cfg_model := []\<rparr>" "''p''" no_options initial] d
  have b: "generateText env0 (settings0\<lparr>cfg_model := []\<rparr>) ''p'' (no_options\<lparr>opt_model := Some []\<rparr>) initial =
     (initial, Inl (Error (''Kein AI-Modell ausgew'' @ [char_of (228 :: nat)] @ ''hlt'')))"
    by blast
  from a b c(1,2) c' d show ?thesis by blast
qed

end
